theory Spec2Isabelle
  imports Main
begin

section \<open>QuantizeLayer: a Keras layer that delegates to a quantizer\<close>

text \<open>
  The development embeds \<^verbatim>\<open>quantize_layer.py\<close>: the class \<^verbatim>\<open>QuantizeLayer\<close>
  with its methods \<^verbatim>\<open>__init__\<close>, \<^verbatim>\<open>build\<close>, \<^verbatim>\<open>_dict_vars\<close>, \<^verbatim>\<open>call\<close>,
  \<^verbatim>\<open>get_config\<close> and \<^verbatim>\<open>from_config\<close>. Methods are state passing functions: a method
  takes the layer and returns it, an exception is the left summand of the result.
  Names that start with an underscore in Python lose it here.
\<close>

subsection \<open>Python values\<close>

text \<open>A Python argument that may be \<^verbatim>\<open>None\<close>.\<close>

datatype 'o pyval = PyNone | PyObj 'o

text \<open>
  Exceptions. The layer raises \<^verbatim>\<open>ValueError\<close> itself; \<^verbatim>\<open>KeyError\<close> comes from
  \<^verbatim>\<open>dict.pop\<close> and \<^verbatim>\<open>AttributeError\<close> from reading an attribute that was never
  assigned; \<open>OtherException\<close> (class name, message) stands for everything else the
  framework or the quantizer may raise.
\<close>

datatype py_error =
    ValueError string
  | KeyError string
  | AttributeError string
  | OtherException string string

text \<open>A dictionary with string keys; equality of maps is Python's equality of dicts.\<close>

type_synonym 'c dict = "string \<rightharpoonup> 'c"

text \<open>
  The training flag once it is not \<^verbatim>\<open>None\<close>: a Python boolean, or a tensor whose
  value the framework decides.
\<close>

datatype 'x flag = PyBool bool | Tensor 'x

text \<open>The arguments of \<^verbatim>\<open>add_weight\<close> as the layer passes them.\<close>

datatype dtype = float16 | float32 | float64 | int32 | int64

datatype initializer = Constant int

record weight_spec =
  ws_name :: string
  ws_initializer :: initializer
  ws_dtype :: dtype
  ws_trainable :: bool

subsection \<open>The layer object\<close>

text \<open>
  \<open>base\<close> is the part of the object that \<^verbatim>\<open>tf.keras.layers.Layer\<close> owns.
  \<open>quantizer\<close> is assigned by \<^verbatim>\<open>__init__\<close>; \<open>min_var\<close>, \<open>max_var\<close> and
  \<open>optimizer_step\<close> do not exist before \<^verbatim>\<open>build\<close> assigns them (\<open>None\<close> here is
  a missing attribute, not Python's \<^verbatim>\<open>None\<close>).
\<close>

record ('o, 'b, 'v) QuantizeLayer =
  base :: 'b
  quantizer :: "'o pyval"
  min_var :: "'v option"
  max_var :: "'v option"
  optimizer_step :: "'v option"

subsection \<open>The host framework and the quantizer\<close>

text \<open>
  Everything the file calls and does not define is a parameter: the base class
  \<^verbatim>\<open>tf.keras.layers.Layer\<close>, the class test against \<^verbatim>\<open>quantizers.Quantizer\<close>, the
  quantizer's methods, the learning phase, the conditional on a tensor and the
  (de)serialisation of Keras objects. \<open>'h\<close> is the framework's own state (variables'
  contents, graph, global flags); each call that can touch it takes and returns it.
  The quantizer's \<^verbatim>\<open>build\<close> receives the layer itself and so returns it.
\<close>

record ('o, 'c, 'b, 'v, 's, 'x, 'h) framework =
  Layer_init :: "'c dict \<Rightarrow> 'h \<Rightarrow> py_error + ('b \<times> 'h)"
  Layer_name :: "'b \<Rightarrow> string"
  Layer_add_weight :: "weight_spec \<Rightarrow> 'b \<Rightarrow> 'h \<Rightarrow> py_error + ('v \<times> 'b \<times> 'h)"
  Layer_get_config :: "'b \<Rightarrow> py_error + 'c dict"
  isinstance_Quantizer :: "'o pyval \<Rightarrow> bool"
  Quantizer_build :: "'o pyval \<Rightarrow> 's \<Rightarrow> string \<Rightarrow> ('o, 'b, 'v) QuantizeLayer \<Rightarrow> 'h
    \<Rightarrow> py_error + (('v \<times> 'v) \<times> ('o, 'b, 'v) QuantizeLayer \<times> 'h)"
  Quantizer_call :: "'o pyval \<Rightarrow> 'x \<Rightarrow> 'v \<Rightarrow> bool \<Rightarrow> 'v dict \<Rightarrow> 'h \<Rightarrow> py_error + ('x \<times> 'h)"
  learning_phase :: "'h \<Rightarrow> py_error + ('x flag \<times> 'h)"
  tf_cond :: "'x \<Rightarrow> ('h \<Rightarrow> py_error + ('x \<times> 'h)) \<Rightarrow> ('h \<Rightarrow> py_error + ('x \<times> 'h))
    \<Rightarrow> 'h \<Rightarrow> py_error + ('x \<times> 'h)"
  serialize_keras_object :: "'o pyval \<Rightarrow> py_error + 'c"
  deserialize_keras_object :: "'c \<Rightarrow> 'h \<Rightarrow> py_error + ('o pyval \<times> 'h)"

subsection \<open>\<^verbatim>\<open>__init__\<close>\<close>

definition quantizer_error_message :: string where
  "quantizer_error_message =
     ''quantizer should not be None, and should be an instance'' @
     ''of `tfmot.quantization.keras.Quantizer`.''"

text \<open>
  The base class is initialised first, with the keyword arguments; then the quantizer
  is checked and stored.
\<close>

definition QuantizeLayer_init ::
  "('o, 'c, 'b, 'v, 's, 'x, 'h) framework \<Rightarrow> 'o pyval \<Rightarrow> 'c dict \<Rightarrow> 'h
    \<Rightarrow> py_error + (('o, 'b, 'v) QuantizeLayer \<times> 'h)" where
  "QuantizeLayer_init F quantizer' kwargs h =
     (case Layer_init F kwargs h of
        Inl e \<Rightarrow> Inl e
      | Inr (b, h1) \<Rightarrow>
          if quantizer' = PyNone \<or> \<not> isinstance_Quantizer F quantizer'
          then Inl (ValueError quantizer_error_message)
          else Inr (\<lparr>base = b, quantizer = quantizer',
                     min_var = None, max_var = None, optimizer_step = None\<rparr>, h1))"

subsection \<open>\<^verbatim>\<open>build\<close>\<close>

definition optimizer_step_spec :: weight_spec where
  "optimizer_step_spec =
     \<lparr>ws_name = ''optimizer_step'', ws_initializer = Constant (- 1),
      ws_dtype = int32, ws_trainable = False\<rparr>"

definition build ::
  "('o, 'c, 'b, 'v, 's, 'x, 'h) framework \<Rightarrow> ('o, 'b, 'v) QuantizeLayer \<Rightarrow> 's \<Rightarrow> 'h
    \<Rightarrow> py_error + (('o, 'b, 'v) QuantizeLayer \<times> 'h)" where
  "build F self input_shape h =
     (case Quantizer_build F (quantizer self) input_shape (Layer_name F (base self)) self h of
        Inl e \<Rightarrow> Inl e
      | Inr ((mn, mx), self1, h1) \<Rightarrow>
          let self2 = self1\<lparr>min_var := Some mn, max_var := Some mx\<rparr> in
          (case Layer_add_weight F optimizer_step_spec (base self2) h1 of
             Inl e \<Rightarrow> Inl e
           | Inr (v, b, h2) \<Rightarrow> Inr (self2\<lparr>base := b, optimizer_step := Some v\<rparr>, h2)))"

subsection \<open>\<^verbatim>\<open>call\<close>\<close>

definition dict_vars :: "'v \<Rightarrow> 'v \<Rightarrow> 'v dict" where
  "dict_vars min_var' max_var' = [''min_var'' \<mapsto> min_var', ''max_var'' \<mapsto> max_var']"

text \<open>
  The closure \<^verbatim>\<open>quantizer_fn\<close>: it reads the layer's attributes when it is called, and
  an attribute that \<^verbatim>\<open>build\<close> never assigned raises \<^verbatim>\<open>AttributeError\<close>.
\<close>

definition make_quantizer_fn ::
  "('o, 'c, 'b, 'v, 's, 'x, 'h) framework \<Rightarrow> ('o, 'b, 'v) QuantizeLayer \<Rightarrow> 'x \<Rightarrow> bool
    \<Rightarrow> 'h \<Rightarrow> py_error + ('x \<times> 'h)" where
  "make_quantizer_fn F self inputs train_var = (\<lambda>h.
     case optimizer_step self of
       None \<Rightarrow> Inl (AttributeError ''optimizer_step'')
     | Some step \<Rightarrow>
         (case min_var self of
            None \<Rightarrow> Inl (AttributeError ''min_var'')
          | Some mn \<Rightarrow>
              (case max_var self of
                 None \<Rightarrow> Inl (AttributeError ''max_var'')
               | Some mx \<Rightarrow>
                   Quantizer_call F (quantizer self) inputs step train_var (dict_vars mn mx) h)))"

text \<open>
  Modelled from the spec: \<^verbatim>\<open>tf_utils.smart_cond\<close> is the framework's and its code is not
  in the repository. The spec has the layer "select training-mode or inference-mode
  behavior and delegate to the quantizer": on a Python boolean the matching branch
  function is called; a tensor is handed with both branch functions to the framework's
  conditional, which stays a parameter.
\<close>

definition smart_cond ::
  "('o, 'c, 'b, 'v, 's, 'x, 'h) framework \<Rightarrow> 'x flag \<Rightarrow> ('h \<Rightarrow> py_error + ('x \<times> 'h))
    \<Rightarrow> ('h \<Rightarrow> py_error + ('x \<times> 'h)) \<Rightarrow> 'h \<Rightarrow> py_error + ('x \<times> 'h)" where
  "smart_cond F pred true_fn false_fn =
     (case pred of
        PyBool p \<Rightarrow> (if p then true_fn else false_fn)
      | Tensor t \<Rightarrow> tf_cond F t true_fn false_fn)"

text \<open>
  \<^verbatim>\<open>call\<close> returns the layer next to its result, also when an exception is raised:
  the object is the caller's and outlives the call.
\<close>

definition call ::
  "('o, 'c, 'b, 'v, 's, 'x, 'h) framework \<Rightarrow> ('o, 'b, 'v) QuantizeLayer \<Rightarrow> 'x
    \<Rightarrow> 'x flag option \<Rightarrow> 'h \<Rightarrow> (py_error + ('x \<times> 'h)) \<times> ('o, 'b, 'v) QuantizeLayer" where
  "call F self inputs training h =
     (case (case training of None \<Rightarrow> learning_phase F h | Some t \<Rightarrow> Inr (t, h)) of
        Inl e \<Rightarrow> (Inl e, self)
      | Inr (training', h1) \<Rightarrow>
          (smart_cond F training'
             (make_quantizer_fn F self inputs True)
             (make_quantizer_fn F self inputs False) h1, self))"

text \<open>A computation that returns the framework's state as it found it.\<close>

definition leaves_state :: "('h \<Rightarrow> py_error + ('x \<times> 'h)) \<Rightarrow> bool" where
  "leaves_state f = (\<forall>h y h'. f h = Inr (y, h') \<longrightarrow> h' = h)"

subsection \<open>\<^verbatim>\<open>get_config\<close> and \<^verbatim>\<open>from_config\<close>\<close>

text \<open>
  \<^verbatim>\<open>dict(list(base_config.items()) + list(config.items()))\<close> is the union of the two
  dictionaries in which an entry of \<^verbatim>\<open>config\<close> wins: \<open>base_config ++ config\<close>.
\<close>

definition get_config ::
  "('o, 'c, 'b, 'v, 's, 'x, 'h) framework \<Rightarrow> ('o, 'b, 'v) QuantizeLayer
    \<Rightarrow> py_error + 'c dict" where
  "get_config F self =
     (case Layer_get_config F (base self) of
        Inl e \<Rightarrow> Inl e
      | Inr base_config \<Rightarrow>
          (case serialize_keras_object F (quantizer self) of
             Inl e \<Rightarrow> Inl e
           | Inr ident \<Rightarrow>
               let config = [''quantizer'' \<mapsto> ident] in Inr (base_config ++ config)))"

text \<open>
  \<^verbatim>\<open>from_config\<close> copies the caller's dictionary and pops from the copy, so dictionaries
  are objects in a store: an address is an index into the list of all dictionaries.
  The store is returned also when an exception is raised. Only the dictionary itself is
  copied (its entries are shared), as \<^verbatim>\<open>dict.copy\<close> does. A reference in Python
  always has its object: the address passed to \<^verbatim>\<open>from_config\<close> is below the length of
  the store.
\<close>

type_synonym 'c heap = "'c dict list"

definition dict_copy :: "'c heap \<Rightarrow> nat \<Rightarrow> nat \<times> 'c heap" where
  "dict_copy H a = (length H, H @ [H ! a])"

definition dict_pop :: "'c heap \<Rightarrow> nat \<Rightarrow> string \<Rightarrow> py_error + ('c \<times> 'c heap)" where
  "dict_pop H a k =
     (case (H ! a) k of
        None \<Rightarrow> Inl (KeyError k)
      | Some v \<Rightarrow> Inr (v, H[a := (H ! a)(k := None)]))"

text \<open>
  The arguments \<^verbatim>\<open>module_objects=globals()\<close> and \<^verbatim>\<open>custom_objects=None\<close> are the same at
  every call and are part of the parameter \<open>deserialize_keras_object\<close>. \<^verbatim>\<open>cls\<close> is
  \<^verbatim>\<open>QuantizeLayer\<close>; its keyword arguments are the entries left in the copy.
\<close>

definition from_config ::
  "('o, 'c, 'b, 'v, 's, 'x, 'h) framework \<Rightarrow> 'c heap \<Rightarrow> nat \<Rightarrow> 'h
    \<Rightarrow> (py_error + (('o, 'b, 'v) QuantizeLayer \<times> 'h)) \<times> 'c heap" where
  "from_config F H config h =
     (case dict_copy H config of
        (config', H1) \<Rightarrow>
          (case dict_pop H1 config' ''quantizer'' of
             Inl e \<Rightarrow> (Inl e, H1)
           | Inr (ident, H2) \<Rightarrow>
               (case deserialize_keras_object F ident h of
                  Inl e \<Rightarrow> (Inl e, H2)
                | Inr (quantizer', h1) \<Rightarrow>
                    (QuantizeLayer_init F quantizer' (H2 ! config') h1, H2))))"

subsection \<open>A small framework to run the layer on\<close>

text \<open>
  An instance of the parameters on which the definitions above can be evaluated:
  objects are class names, configuration values are strings, tensors are integers, and
  the framework's state is the list of its variables with their values. The quantizer
  clamps to its range at inference and counts a step in training; it fails when the
  step variable does not exist.
\<close>

type_synonym demo_state = "(string \<times> int) list"

definition demo_is_quantizer :: "string pyval \<Rightarrow> bool" where
  "demo_is_quantizer q =
     (case q of
        PyNone \<Rightarrow> False
      | PyObj c \<Rightarrow> c = ''LastValueQuantizer'' \<or> c = ''MovingAverageQuantizer'')"

definition demo_name :: "string dict \<Rightarrow> string" where
  "demo_name b = (case b ''name'' of None \<Rightarrow> ''quantize_layer'' | Some n \<Rightarrow> n)"

definition demo_add_weight ::
  "weight_spec \<Rightarrow> string dict \<Rightarrow> demo_state \<Rightarrow> py_error + (string \<times> string dict \<times> demo_state)" where
  "demo_add_weight ws b h =
     Inr (ws_name ws, b, h @ [(ws_name ws, case ws_initializer ws of Constant c \<Rightarrow> c)])"

definition demo_quantizer_build ::
  "string pyval \<Rightarrow> nat list \<Rightarrow> string \<Rightarrow> (string, string dict, string) QuantizeLayer
    \<Rightarrow> demo_state
    \<Rightarrow> py_error + ((string \<times> string) \<times> (string, string dict, string) QuantizeLayer \<times> demo_state)" where
  "demo_quantizer_build q input_shape name self h =
     Inr ((name @ ''_min'', name @ ''_max''), self,
          h @ [(name @ ''_min'', - 6), (name @ ''_max'', 6)])"

definition demo_quantizer_call ::
  "string pyval \<Rightarrow> int \<Rightarrow> string \<Rightarrow> bool \<Rightarrow> string dict \<Rightarrow> demo_state
    \<Rightarrow> py_error + (int \<times> demo_state)" where
  "demo_quantizer_call q inputs step train_var vars h =
     (if map_of h step = None
      then Inl (OtherException ''FailedPreconditionError'' ''uninitialized variable'')
      else if train_var
      then Inr (inputs, map (\<lambda>(n, v). if n = step then (n, v + 1) else (n, v)) h)
      else Inr (max (- 6) (min 6 inputs), h))"

definition demo_serialize :: "string pyval \<Rightarrow> py_error + string" where
  "demo_serialize q = (case q of PyNone \<Rightarrow> Inr ''None'' | PyObj c \<Rightarrow> Inr c)"

definition demo_deserialize :: "string \<Rightarrow> demo_state \<Rightarrow> py_error + (string pyval \<times> demo_state)" where
  "demo_deserialize c h = Inr (if c = ''None'' then PyNone else PyObj c, h)"

definition demo ::
  "(string, string, string dict, string, nat list, int, demo_state) framework" where
  "demo =
     \<lparr>Layer_init = (\<lambda>kwargs h. Inr (kwargs, h)),
      Layer_name = demo_name,
      Layer_add_weight = demo_add_weight,
      Layer_get_config = Inr,
      isinstance_Quantizer = demo_is_quantizer,
      Quantizer_build = demo_quantizer_build,
      Quantizer_call = demo_quantizer_call,
      learning_phase = (\<lambda>h. Inr (PyBool False, h)),
      tf_cond = (\<lambda>t true_fn false_fn h. if t \<noteq> 0 then true_fn h else false_fn h),
      serialize_keras_object = demo_serialize,
      deserialize_keras_object = demo_deserialize\<rparr>"

text \<open>The same framework with a quantizer that never updates its variables.\<close>

definition demo_frozen ::
  "(string, string, string dict, string, nat list, int, demo_state) framework" where
  "demo_frozen =
     demo\<lparr>Quantizer_call :=
            (\<lambda>q inputs step train_var vars h. demo_quantizer_call q inputs step False vars h)\<rparr>"


text \<open>A constructed layer and the same layer after \<^verbatim>\<open>build\<close>.\<close>

definition demo_layer :: "(string, string dict, string) QuantizeLayer" where
  "demo_layer =
     \<lparr>base = [''name'' \<mapsto> ''q''], quantizer = PyObj ''LastValueQuantizer'',
      min_var = None, max_var = None, optimizer_step = None\<rparr>"

definition demo_built_layer :: "(string, string dict, string) QuantizeLayer" where
  "demo_built_layer =
     demo_layer\<lparr>min_var := Some ''q_min'', max_var := Some ''q_max'',
                optimizer_step := Some ''optimizer_step''\<rparr>"

definition demo_built_state :: demo_state where
  "demo_built_state = [(''q_min'', - 6), (''q_max'', 6), (''optimizer_step'', - 1)]"

section \<open>Properties\<close>

subsection \<open>Shared lemmas\<close>

lemma make_quantizer_fn_built:
  assumes "optimizer_step self = Some step" "min_var self = Some mn" "max_var self = Some mx"
  shows "make_quantizer_fn F self inputs p =
         Quantizer_call F (quantizer self) inputs step p (dict_vars mn mx)"
  using assms by (simp add: make_quantizer_fn_def)

lemma call_resolved:
  "fst (call F self inputs (Some t) h) =
   smart_cond F t (make_quantizer_fn F self inputs True) (make_quantizer_fn F self inputs False) h"
  by (simp add: call_def)

lemma call_unresolved:
  "fst (call F self inputs None h) =
   (case learning_phase F h of
      Inl e \<Rightarrow> Inl e
    | Inr (t, h1) \<Rightarrow> fst (call F self inputs (Some t) h1))"
  by (simp add: call_def split: sum.splits)


lemma init_success:
  assumes "QuantizeLayer_init F q kwargs h = Inr (self, h')"
  shows "quantizer self = q \<and> Layer_init F kwargs h = Inr (base self, h') \<and>
         q \<noteq> PyNone \<and> isinstance_Quantizer F q \<and>
         min_var self = None \<and> max_var self = None \<and> optimizer_step self = None"
  using assms by (auto simp: QuantizeLayer_init_def split: sum.splits if_splits)

lemma build_success:
  assumes "build F self input_shape h = Inr (self', h')"
  shows "\<exists>mn mx self1 h1 v b.
           Quantizer_build F (quantizer self) input_shape (Layer_name F (base self)) self h
             = Inr ((mn, mx), self1, h1) \<and>
           Layer_add_weight F optimizer_step_spec (base self1) h1 = Inr (v, b, h') \<and>
           self' = self1\<lparr>min_var := Some mn, max_var := Some mx, base := b,
                          optimizer_step := Some v\<rparr>"
  using assms
  by (auto simp: build_def Let_def split: sum.splits prod.splits)

lemma from_config_with_entry:
  assumes "config < length H" "(H ! config) ''quantizer'' = Some ident"
  shows "from_config F H config h =
         ((case deserialize_keras_object F ident h of
             Inl e \<Rightarrow> Inl e
           | Inr (q, h1) \<Rightarrow> QuantizeLayer_init F q ((H ! config)(''quantizer'' := None)) h1),
          H @ [(H ! config)(''quantizer'' := None)])"
  using assms
  by (simp add: from_config_def dict_copy_def dict_pop_def nth_append split: sum.splits)

text \<open>Evaluation of the small framework.\<close>

lemma demo_built_layer_attrs:
  "optimizer_step demo_built_layer = Some ''optimizer_step''"
  "min_var demo_built_layer = Some ''q_min''"
  "max_var demo_built_layer = Some ''q_max''"
  "quantizer demo_built_layer = PyObj ''LastValueQuantizer''"
  by (simp_all add: demo_built_layer_def demo_layer_def)

lemma demo_build:
  "build demo demo_layer [28, 28] [] = Inr (demo_built_layer, demo_built_state)"
  by (simp add: build_def demo_def demo_layer_def demo_built_layer_def demo_built_state_def
      demo_quantizer_build_def demo_add_weight_def demo_name_def optimizer_step_spec_def)

subsection \<open>Construction\<close>




lemma demo_call_training:
  "Quantizer_call demo (PyObj ''LastValueQuantizer'') 9 ''optimizer_step'' True
     (dict_vars ''q_min'' ''q_max'') demo_built_state
   = Inr (9, [(''q_min'', - 6), (''q_max'', 6), (''optimizer_step'', 0)])"
  by (simp add: demo_def demo_quantizer_call_def demo_built_state_def)

lemma demo_call_inference:
  "Quantizer_call demo (PyObj ''LastValueQuantizer'') 9 ''optimizer_step'' False
     (dict_vars ''q_min'' ''q_max'') demo_built_state
   = Inr (6, demo_built_state)"
  by (simp add: demo_def demo_quantizer_call_def demo_built_state_def)

lemma demo_call_uninitialized:
  "Quantizer_call demo (PyObj ''LastValueQuantizer'') 9 ''optimizer_step'' p
     (dict_vars ''q_min'' ''q_max'') []
   = Inl (OtherException ''FailedPreconditionError'' ''uninitialized variable'')"
  by (simp add: demo_def demo_quantizer_call_def)

subsection \<open>The forward computation\<close>

text \<open>
  C2. On a built layer, with the Python boolean \<^verbatim>\<open>True\<close> as training flag the
  computation is the quantizer's with \<open>train_var = True\<close> (training mode), and with
  \<^verbatim>\<open>False\<close> it is the quantizer's with \<open>train_var = False\<close> (inference mode).
\<close>

theorem call_training_flag:
  assumes "optimizer_step self = Some step" "min_var self = Some mn" "max_var self = Some mx"
  shows "fst (call F self inputs (Some (PyBool True)) h) =
           Quantizer_call F (quantizer self) inputs step True (dict_vars mn mx) h \<and>
         fst (call F self inputs (Some (PyBool False)) h) =
           Quantizer_call F (quantizer self) inputs step False (dict_vars mn mx) h"
  by (simp add: call_resolved smart_cond_def make_quantizer_fn_built [OF assms])

theorem call_training_flag_witness:
  "optimizer_step demo_built_layer = Some ''optimizer_step'' \<and>
   min_var demo_built_layer = Some ''q_min'' \<and>
   max_var demo_built_layer = Some ''q_max'' \<and>
   fst (call demo demo_built_layer 9 (Some (PyBool True)) demo_built_state) =
     Inr (9, [(''q_min'', - 6), (''q_max'', 6), (''optimizer_step'', 0)]) \<and>
   fst (call demo demo_built_layer 9 (Some (PyBool False)) demo_built_state) =
     Inr (6, demo_built_state)"
  using call_training_flag [OF demo_built_layer_attrs(1-3), of demo 9 demo_built_state]
  by (simp add: demo_built_layer_attrs demo_call_training demo_call_inference)

text \<open>
  C3. On a built layer, for every input and every way of passing the training flag, what
  \<^verbatim>\<open>call\<close> returns is what the stored quantizer returns on the inputs, the step
  counter, the mode, and the keyword arguments \<^verbatim>\<open>min_var\<close> and \<^verbatim>\<open>max_var\<close> bound to
  the layer's min and max variables (and no other keyword argument): directly when
  the flag is a Python boolean (given, or taken from the learning phase), and through the
  framework's conditional over the two modes when it is a tensor. A failure to read the
  learning phase is passed on.
\<close>

theorem call_delegates:
  assumes "optimizer_step self = Some step" "min_var self = Some mn" "max_var self = Some mx"
  shows "fst (call F self inputs training h) =
         (case (case training of None \<Rightarrow> learning_phase F h | Some t \<Rightarrow> Inr (t, h)) of
            Inl e \<Rightarrow> Inl e
          | Inr (PyBool p, h1) \<Rightarrow>
              Quantizer_call F (quantizer self) inputs step p
                [''min_var'' \<mapsto> mn, ''max_var'' \<mapsto> mx] h1
          | Inr (Tensor t, h1) \<Rightarrow>
              tf_cond F t
                (Quantizer_call F (quantizer self) inputs step True
                   [''min_var'' \<mapsto> mn, ''max_var'' \<mapsto> mx])
                (Quantizer_call F (quantizer self) inputs step False
                   [''min_var'' \<mapsto> mn, ''max_var'' \<mapsto> mx]) h1)"
proof (cases training)
  case None
  then show ?thesis
    by (simp add: call_unresolved call_resolved smart_cond_def dict_vars_def
        make_quantizer_fn_built [OF assms] split: sum.splits flag.splits)
next
  case (Some t)
  then show ?thesis
    by (simp add: call_resolved smart_cond_def dict_vars_def
        make_quantizer_fn_built [OF assms] split: flag.splits)
qed

theorem call_delegates_witness:
  "optimizer_step demo_built_layer = Some ''optimizer_step'' \<and>
   min_var demo_built_layer = Some ''q_min'' \<and>
   max_var demo_built_layer = Some ''q_max'' \<and>
   fst (call demo demo_built_layer 9 None demo_built_state) = Inr (6, demo_built_state) \<and>
   fst (call demo demo_built_layer 9 (Some (Tensor 1)) demo_built_state) =
     Inr (9, [(''q_min'', - 6), (''q_max'', 6), (''optimizer_step'', 0)])"
proof -
  have lp: "learning_phase demo demo_built_state = Inr (PyBool False, demo_built_state)"
    by (simp add: demo_def)
  have tc: "tf_cond demo 1 f g = f" for f g
    by (simp add: demo_def)
  from call_delegates [OF demo_built_layer_attrs(1-3), of demo 9 None demo_built_state]
  have 1: "fst (call demo demo_built_layer 9 None demo_built_state) = Inr (6, demo_built_state)"
    by (simp add: lp demo_built_layer_attrs demo_call_inference [unfolded dict_vars_def])
  from call_delegates [OF demo_built_layer_attrs(1-3), of demo 9 "Some (Tensor 1)" demo_built_state]
  have 2: "fst (call demo demo_built_layer 9 (Some (Tensor 1)) demo_built_state) =
     Inr (9, [(''q_min'', - 6), (''q_max'', 6), (''optimizer_step'', 0)])"
    by (simp add: tc demo_built_layer_attrs demo_call_training [unfolded dict_vars_def])
  from 1 2 show ?thesis by (simp add: demo_built_layer_attrs)
qed

text \<open>
  C5. Every invocation of \<^verbatim>\<open>call\<close>, also one that raises, leaves the layer as it
  was: the quantizer reference, \<open>min_var\<close>, \<open>max_var\<close> and \<open>optimizer_step\<close> are
  the same attributes afterwards. The framework's state, where the variables' contents
  live, is changed only by the delegates: if the learning phase, the stored quantizer and
  the framework's conditional (over branches that do not) do not change it, then a
  call that returns has not changed it.
\<close>

theorem call_frame:
  "snd (call F self inputs training h) = self \<and>
   quantizer (snd (call F self inputs training h)) = quantizer self \<and>
   min_var (snd (call F self inputs training h)) = min_var self \<and>
   max_var (snd (call F self inputs training h)) = max_var self \<and>
   optimizer_step (snd (call F self inputs training h)) = optimizer_step self \<and>
   (leaves_state (learning_phase F) \<and>
    (\<forall>x step p vars. leaves_state (Quantizer_call F (quantizer self) x step p vars)) \<and>
    (\<forall>t f g. leaves_state f \<and> leaves_state g \<longrightarrow> leaves_state (tf_cond F t f g))
    \<longrightarrow> (\<forall>y h'. fst (call F self inputs training h) = Inr (y, h') \<longrightarrow> h' = h))"
proof -
  have self: "snd (call F self inputs training h) = self"
    by (simp add: call_def split: sum.splits prod.splits)
  have "h' = h"
    if lp: "leaves_state (learning_phase F)"
      and qc: "\<forall>x step p vars. leaves_state (Quantizer_call F (quantizer self) x step p vars)"
      and tc: "\<forall>t f g. leaves_state f \<and> leaves_state g \<longrightarrow> leaves_state (tf_cond F t f g)"
      and r: "fst (call F self inputs training h) = Inr (y, h')"
    for y h'
  proof -
    have fn: "leaves_state (make_quantizer_fn F self inputs p)" for p
      using qc
      by (auto simp: leaves_state_def make_quantizer_fn_def split: option.splits)
    have sc: "leaves_state (smart_cond F t (make_quantizer_fn F self inputs True)
                                           (make_quantizer_fn F self inputs False))" for t
      using fn tc by (cases t) (simp_all add: smart_cond_def)
    from r obtain t h1 where
      res: "(case training of None \<Rightarrow> learning_phase F h | Some t \<Rightarrow> Inr (t, h)) = Inr (t, h1)"
      and run: "smart_cond F t (make_quantizer_fn F self inputs True)
                               (make_quantizer_fn F self inputs False) h1 = Inr (y, h')"
      by (auto simp: call_def split: sum.splits)
    from res lp have "h1 = h"
      by (cases training) (auto simp: leaves_state_def)
    moreover from sc run have "h' = h1"
      unfolding leaves_state_def by blast
    ultimately show ?thesis by simp
  qed
  with self show ?thesis by simp
qed


theorem call_frame_witness:
  "snd (call demo_frozen demo_built_layer 9 (Some (PyBool True)) demo_built_state)
     = demo_built_layer \<and>
   leaves_state (learning_phase demo_frozen) \<and>
   (\<forall>x step p vars.
      leaves_state (Quantizer_call demo_frozen (quantizer demo_built_layer) x step p vars)) \<and>
   fst (call demo_frozen demo_built_layer 9 (Some (PyBool True)) demo_built_state)
     = Inr (6, demo_built_state)"
proof -
  have lp: "leaves_state (learning_phase demo_frozen)"
    by (simp add: leaves_state_def demo_frozen_def demo_def)
  have qc: "\<forall>x step p vars.
      leaves_state (Quantizer_call demo_frozen (quantizer demo_built_layer) x step p vars)"
    by (simp add: leaves_state_def demo_frozen_def demo_def demo_quantizer_call_def)
  have tc: "\<forall>t f g. leaves_state f \<and> leaves_state g \<longrightarrow> leaves_state (tf_cond demo_frozen t f g)"
    by (simp add: leaves_state_def demo_frozen_def demo_def)
  have ev: "\<exists>h'. fst (call demo_frozen demo_built_layer 9 (Some (PyBool True)) demo_built_state)
     = Inr (6, h')"
    by (simp add: call_def smart_cond_def make_quantizer_fn_def demo_built_layer_attrs
        demo_frozen_def demo_def demo_quantizer_call_def demo_built_state_def)
  from call_frame [of demo_frozen demo_built_layer 9 "Some (PyBool True)" demo_built_state]
    lp qc tc ev
  show ?thesis by auto
qed

subsection \<open>Building the state\<close>

text \<open>
  C4. When \<^verbatim>\<open>build\<close> completes, the layer is made of exactly: the base class's part
  as \<^verbatim>\<open>add_weight\<close> left it, the quantizer reference, the pair of variables that the
  quantizer's \<^verbatim>\<open>build\<close> returned for the input shape, the layer's name and the layer,
  and the one weight that \<^verbatim>\<open>add_weight\<close> returned as step counter. The quantizer's
  \<^verbatim>\<open>build\<close> is handed the layer; the attributes are those of the layer as it returned
  it, with the three assigned.
\<close>

theorem build_state:
  assumes "build F self input_shape h = Inr (self', h')"
  shows "\<exists>mn mx self1 h1 v b.
           Quantizer_build F (quantizer self) input_shape (Layer_name F (base self)) self h
             = Inr ((mn, mx), self1, h1) \<and>
           Layer_add_weight F optimizer_step_spec (base self1) h1 = Inr (v, b, h') \<and>
           self' = \<lparr>base = b, quantizer = quantizer self1,
                    min_var = Some mn, max_var = Some mx, optimizer_step = Some v\<rparr>"
proof -
  from build_success [OF assms] obtain mn mx self1 h1 v b where
    q: "Quantizer_build F (quantizer self) input_shape (Layer_name F (base self)) self h
          = Inr ((mn, mx), self1, h1)" and
    w: "Layer_add_weight F optimizer_step_spec (base self1) h1 = Inr (v, b, h')" and
    s: "self' = self1\<lparr>min_var := Some mn, max_var := Some mx, base := b,
                       optimizer_step := Some v\<rparr>"
    by blast
  from s have "self' = \<lparr>base = b, quantizer = quantizer self1,
                        min_var = Some mn, max_var = Some mx, optimizer_step = Some v\<rparr>"
    by simp
  with q w show ?thesis by blast
qed

theorem build_state_witness:
  "build demo demo_layer [28, 28] [] = Inr (demo_built_layer, demo_built_state) \<and>
   Quantizer_build demo (PyObj ''LastValueQuantizer'') [28, 28] ''q'' demo_layer []
     = Inr ((''q_min'', ''q_max''), demo_layer, [(''q_min'', - 6), (''q_max'', 6)]) \<and>
   Layer_add_weight demo optimizer_step_spec [''name'' \<mapsto> ''q''] [(''q_min'', - 6), (''q_max'', 6)]
     = Inr (''optimizer_step'', [''name'' \<mapsto> ''q''], demo_built_state) \<and>
   demo_built_layer = \<lparr>base = [''name'' \<mapsto> ''q''], quantizer = PyObj ''LastValueQuantizer'',
      min_var = Some ''q_min'', max_var = Some ''q_max'',
      optimizer_step = Some ''optimizer_step''\<rparr>"
proof -
  have qb: "Quantizer_build demo (quantizer demo_layer) [28, 28]
              (Layer_name demo (base demo_layer)) demo_layer []
            = Inr ((''q_min'', ''q_max''), demo_layer, [(''q_min'', - 6), (''q_max'', 6)])"
    by (simp add: demo_def demo_layer_def demo_quantizer_build_def demo_name_def)
  from build_state [OF demo_build] obtain mn mx self1 h1 v b where
    q: "Quantizer_build demo (quantizer demo_layer) [28, 28]
          (Layer_name demo (base demo_layer)) demo_layer [] = Inr ((mn, mx), self1, h1)" and
    w: "Layer_add_weight demo optimizer_step_spec (base self1) h1
          = Inr (v, b, demo_built_state)" and
    s: "demo_built_layer = \<lparr>base = b, quantizer = quantizer self1,
          min_var = Some mn, max_var = Some mx, optimizer_step = Some v\<rparr>"
    by blast
  from q [unfolded qb] have eqs: "mn = ''q_min''" "mx = ''q_max''" "self1 = demo_layer"
    "h1 = [(''q_min'', - 6), (''q_max'', 6)]"
    by auto
  from w have vb: "v = ''optimizer_step''" "b = [''name'' \<mapsto> ''q'']"
    unfolding eqs by (simp_all add: demo_def demo_add_weight_def optimizer_step_spec_def
        demo_layer_def)
  from q w s demo_build show ?thesis
    unfolding eqs vb by (simp add: demo_layer_def demo_name_def demo_def)
qed

text \<open>
  C9. When \<^verbatim>\<open>build\<close> completes, \<open>optimizer_step\<close> is the weight that the base class
  returned for the request: name \<^verbatim>\<open>optimizer_step\<close>, initializer the constant \<open>-1\<close>,
  dtype \<open>int32\<close>, not trainable.
\<close>

theorem build_optimizer_step:
  assumes "build F self input_shape h = Inr (self', h')"
  shows "\<exists>v b0 h0 b.
           Layer_add_weight F
             \<lparr>ws_name = ''optimizer_step'', ws_initializer = Constant (- 1),
              ws_dtype = int32, ws_trainable = False\<rparr> b0 h0 = Inr (v, b, h') \<and>
           optimizer_step self' = Some v"
proof -
  from build_success [OF assms] obtain mn mx self1 h1 v b where
    w: "Layer_add_weight F optimizer_step_spec (base self1) h1 = Inr (v, b, h')" and
    s: "self' = self1\<lparr>min_var := Some mn, max_var := Some mx, base := b,
                       optimizer_step := Some v\<rparr>"
    by blast
  from s have "optimizer_step self' = Some v" by simp
  with w show ?thesis unfolding optimizer_step_spec_def by blast
qed

theorem build_optimizer_step_witness:
  "build demo demo_layer [28, 28] [] = Inr (demo_built_layer, demo_built_state) \<and>
   (\<exists>b0 h0 b.
      Layer_add_weight demo
        \<lparr>ws_name = ''optimizer_step'', ws_initializer = Constant (- 1),
         ws_dtype = int32, ws_trainable = False\<rparr> b0 h0
        = Inr (''optimizer_step'', b, demo_built_state)) \<and>
   optimizer_step demo_built_layer = Some ''optimizer_step'' \<and>
   map_of demo_built_state ''optimizer_step'' = Some (- 1)"
proof -
  from build_optimizer_step [OF demo_build]
  have "\<exists>b0 h0 b.
      Layer_add_weight demo
        \<lparr>ws_name = ''optimizer_step'', ws_initializer = Constant (- 1),
         ws_dtype = int32, ws_trainable = False\<rparr> b0 h0
        = Inr (''optimizer_step'', b, demo_built_state)"
    by (auto simp: demo_built_layer_attrs)
  with demo_build show ?thesis
    by (simp add: demo_built_layer_attrs demo_built_state_def)
qed


subsection \<open>Errors of the forward computation\<close>

text \<open>
  C7. On a built layer, an exception that leaves \<^verbatim>\<open>call\<close> is one that a delegate
  raised: the learning phase when the flag was left out, the stored quantizer in the
  selected mode, or the framework's conditional over the quantizer's two modes. The
  layer raises none of its own.
\<close>

theorem call_no_error_of_its_own:
  assumes "optimizer_step self = Some step" "min_var self = Some mn" "max_var self = Some mx"
    and "fst (call F self inputs training h) = Inl e"
  shows "(training = None \<and> learning_phase F h = Inl e) \<or>
         (\<exists>p h1. (case training of None \<Rightarrow> learning_phase F h | Some t \<Rightarrow> Inr (t, h))
                    = Inr (PyBool p, h1) \<and>
                  Quantizer_call F (quantizer self) inputs step p (dict_vars mn mx) h1 = Inl e) \<or>
         (\<exists>t h1. (case training of None \<Rightarrow> learning_phase F h | Some t \<Rightarrow> Inr (t, h))
                    = Inr (Tensor t, h1) \<and>
                  tf_cond F t
                    (Quantizer_call F (quantizer self) inputs step True (dict_vars mn mx))
                    (Quantizer_call F (quantizer self) inputs step False (dict_vars mn mx)) h1
                    = Inl e)"
  using assms(4)
  by (auto simp: call_def smart_cond_def make_quantizer_fn_built [OF assms(1-3)]
      split: sum.splits option.splits flag.splits if_splits)

theorem call_no_error_of_its_own_witness:
  "optimizer_step demo_built_layer = Some ''optimizer_step'' \<and>
   min_var demo_built_layer = Some ''q_min'' \<and>
   max_var demo_built_layer = Some ''q_max'' \<and>
   fst (call demo demo_built_layer 9 (Some (PyBool True)) [])
     = Inl (OtherException ''FailedPreconditionError'' ''uninitialized variable'') \<and>
   Quantizer_call demo (quantizer demo_built_layer) 9 ''optimizer_step'' True
       (dict_vars ''q_min'' ''q_max'') []
     = Inl (OtherException ''FailedPreconditionError'' ''uninitialized variable'')"
proof -
  have ev: "fst (call demo demo_built_layer 9 (Some (PyBool True)) [])
     = Inl (OtherException ''FailedPreconditionError'' ''uninitialized variable'')"
    by (simp add: call_def smart_cond_def make_quantizer_fn_def demo_built_layer_attrs
        demo_call_uninitialized)
  from call_no_error_of_its_own [OF demo_built_layer_attrs(1-3) ev]
  have "\<exists>p. Quantizer_call demo (quantizer demo_built_layer) 9 ''optimizer_step'' p
       (dict_vars ''q_min'' ''q_max'') []
     = Inl (OtherException ''FailedPreconditionError'' ''uninitialized variable'')"
    by auto
  then have "Quantizer_call demo (quantizer demo_built_layer) 9 ''optimizer_step'' True
       (dict_vars ''q_min'' ''q_max'') []
     = Inl (OtherException ''FailedPreconditionError'' ''uninitialized variable'')"
    by (simp add: demo_built_layer_attrs demo_call_uninitialized)
  with ev show ?thesis by (simp add: demo_built_layer_attrs)
qed

subsection \<open>The training flag left out\<close>

text \<open>
  C8. Called with the training flag \<^verbatim>\<open>None\<close> (or without it), the layer reads the
  framework's learning phase and goes on as if it had been called with that flag; on a
  built layer the learning phase is the flag that selects the mode: when it is the
  boolean \<open>p\<close> the result is the stored quantizer's with \<open>train_var = p\<close>, when it is a
  tensor the result is the framework's conditional on it over the two modes, and a
  failure to read it is passed on.
\<close>

theorem call_training_None:
  assumes "optimizer_step self = Some step" "min_var self = Some mn" "max_var self = Some mx"
  shows "call F self inputs None h =
           (case learning_phase F h of
              Inl e \<Rightarrow> (Inl e, self)
            | Inr (t, h1) \<Rightarrow> call F self inputs (Some t) h1) \<and>
         fst (call F self inputs None h) =
           (case learning_phase F h of
              Inl e \<Rightarrow> Inl e
            | Inr (PyBool p, h1) \<Rightarrow>
                Quantizer_call F (quantizer self) inputs step p
                  [''min_var'' \<mapsto> mn, ''max_var'' \<mapsto> mx] h1
            | Inr (Tensor t, h1) \<Rightarrow>
                tf_cond F t
                  (Quantizer_call F (quantizer self) inputs step True
                     [''min_var'' \<mapsto> mn, ''max_var'' \<mapsto> mx])
                  (Quantizer_call F (quantizer self) inputs step False
                     [''min_var'' \<mapsto> mn, ''max_var'' \<mapsto> mx]) h1)"
proof
  show "call F self inputs None h =
          (case learning_phase F h of
             Inl e \<Rightarrow> (Inl e, self)
           | Inr (t, h1) \<Rightarrow> call F self inputs (Some t) h1)"
    by (simp add: call_def split: sum.splits)
  show "fst (call F self inputs None h) =
          (case learning_phase F h of
             Inl e \<Rightarrow> Inl e
           | Inr (PyBool p, h1) \<Rightarrow>
               Quantizer_call F (quantizer self) inputs step p
                 [''min_var'' \<mapsto> mn, ''max_var'' \<mapsto> mx] h1
           | Inr (Tensor t, h1) \<Rightarrow>
               tf_cond F t
                 (Quantizer_call F (quantizer self) inputs step True
                    [''min_var'' \<mapsto> mn, ''max_var'' \<mapsto> mx])
                 (Quantizer_call F (quantizer self) inputs step False
                    [''min_var'' \<mapsto> mn, ''max_var'' \<mapsto> mx]) h1)"
    by (simp add: call_unresolved call_resolved smart_cond_def dict_vars_def
        make_quantizer_fn_built [OF assms] split: sum.splits flag.splits)
qed

theorem call_training_None_witness:
  "optimizer_step demo_built_layer = Some ''optimizer_step'' \<and>
   min_var demo_built_layer = Some ''q_min'' \<and>
   max_var demo_built_layer = Some ''q_max'' \<and>
   learning_phase demo demo_built_state = Inr (PyBool False, demo_built_state) \<and>
   fst (call demo demo_built_layer 9 None demo_built_state) = Inr (6, demo_built_state) \<and>
   learning_phase (demo\<lparr>learning_phase := \<lambda>h. Inr (PyBool True, h)\<rparr>) demo_built_state
     = Inr (PyBool True, demo_built_state) \<and>
   fst (call (demo\<lparr>learning_phase := \<lambda>h. Inr (PyBool True, h)\<rparr>) demo_built_layer 9 None
          demo_built_state)
     = Inr (9, [(''q_min'', - 6), (''q_max'', 6), (''optimizer_step'', 0)])"
proof -
  let ?T = "demo\<lparr>learning_phase := \<lambda>h. Inr (PyBool True, h)\<rparr>"
  have lf: "learning_phase demo demo_built_state = Inr (PyBool False, demo_built_state)"
    by (simp add: demo_def)
  have lt: "learning_phase ?T demo_built_state = Inr (PyBool True, demo_built_state)"
    by simp
  have qt: "Quantizer_call ?T = Quantizer_call demo"
    by simp
  from call_training_None [OF demo_built_layer_attrs(1-3), of demo 9 demo_built_state,
      THEN conjunct2]
  have 1: "fst (call demo demo_built_layer 9 None demo_built_state) = Inr (6, demo_built_state)"
    by (simp add: lf demo_built_layer_attrs demo_call_inference [unfolded dict_vars_def])
  from call_training_None [OF demo_built_layer_attrs(1-3), of ?T 9 demo_built_state,
      THEN conjunct2]
  have 2: "fst (call ?T demo_built_layer 9 None demo_built_state)
     = Inr (9, [(''q_min'', - 6), (''q_max'', 6), (''optimizer_step'', 0)])"
    by (simp add: qt demo_built_layer_attrs demo_call_training [unfolded dict_vars_def])
  from lf lt 1 2 show ?thesis by (simp add: demo_built_layer_attrs)
qed

subsection \<open>Configuration\<close>

text \<open>
  C10. Given a dictionary with a \<^verbatim>\<open>quantizer\<close> entry, \<^verbatim>\<open>from_config\<close> leaves it, and
  every dictionary that existed before, unchanged: it works on a copy. The constructor
  gets the deserialised entry as quantizer, and as keyword arguments the dictionary
  without its \<^verbatim>\<open>quantizer\<close> entry, every other entry as it was.
\<close>

theorem from_config_copy:
  assumes "config < length H" "(H ! config) ''quantizer'' = Some ident"
  shows "snd (from_config F H config h) ! config = H ! config \<and>
         take (length H) (snd (from_config F H config h)) = H \<and>
         fst (from_config F H config h) =
           (case deserialize_keras_object F ident h of
              Inl e \<Rightarrow> Inl e
            | Inr (q, h1) \<Rightarrow> QuantizeLayer_init F q ((H ! config)(''quantizer'' := None)) h1) \<and>
         (\<forall>k. k \<noteq> ''quantizer'' \<longrightarrow> ((H ! config)(''quantizer'' := None)) k = (H ! config) k)"
  by (simp add: from_config_with_entry [OF assms] nth_append assms(1))

theorem from_config_copy_witness:
  "(0::nat) < length [[''name'' \<mapsto> ''q'', ''quantizer'' \<mapsto> ''LastValueQuantizer'']] \<and>
   ([[''name'' \<mapsto> ''q'', ''quantizer'' \<mapsto> ''LastValueQuantizer'']] ! 0) ''quantizer''
     = Some ''LastValueQuantizer'' \<and>
   snd (from_config demo [[''name'' \<mapsto> ''q'', ''quantizer'' \<mapsto> ''LastValueQuantizer'']] 0 []) ! 0
     = [''name'' \<mapsto> ''q'', ''quantizer'' \<mapsto> ''LastValueQuantizer''] \<and>
   fst (from_config demo [[''name'' \<mapsto> ''q'', ''quantizer'' \<mapsto> ''LastValueQuantizer'']] 0 [])
     = QuantizeLayer_init demo (PyObj ''LastValueQuantizer'')
         ([''name'' \<mapsto> ''q'', ''quantizer'' \<mapsto> ''LastValueQuantizer''](''quantizer'' := None)) []"
proof -
  let ?H = "[[''name'' \<mapsto> ''q'', ''quantizer'' \<mapsto> ''LastValueQuantizer'']]"
  have l: "(0::nat) < length ?H" by simp
  have e: "(?H ! 0) ''quantizer'' = Some ''LastValueQuantizer''" by simp
  have d: "deserialize_keras_object demo ''LastValueQuantizer'' []
             = Inr (PyObj ''LastValueQuantizer'', [])"
    by (simp add: demo_def demo_deserialize_def)
  from from_config_copy [OF l e, of demo "[]"] l e show ?thesis
    by (simp add: d)
qed

text \<open>
  C6. If \<^verbatim>\<open>get_config\<close> returns (the quantizer can be serialised) and the base class's
  configuration has no \<^verbatim>\<open>quantizer\<close> entry of its own, then \<^verbatim>\<open>from_config\<close> on the
  returned dictionary is the construction of a layer from the deserialisation of the
  quantizer's serialisation, with the base configuration as keyword arguments; a layer it
  returns has that quantizer, and its base part is the base class initialised with the
  base configuration.
\<close>

theorem config_roundtrip:
  assumes "get_config F self = Inr cfg"
    and "Layer_get_config F (base self) = Inr base_config"
    and "base_config ''quantizer'' = None"
  shows "\<exists>ident. serialize_keras_object F (quantizer self) = Inr ident \<and>
           fst (from_config F (H @ [cfg]) (length H) h) =
             (case deserialize_keras_object F ident h of
                Inl e \<Rightarrow> Inl e
              | Inr (q, h1) \<Rightarrow> QuantizeLayer_init F q base_config h1) \<and>
           (\<forall>self' h'. fst (from_config F (H @ [cfg]) (length H) h) = Inr (self', h') \<longrightarrow>
              (\<exists>h1. deserialize_keras_object F ident h = Inr (quantizer self', h1) \<and>
                    Layer_init F base_config h1 = Inr (base self', h')))"
proof -
  from assms(1,2) obtain ident where
    ser: "serialize_keras_object F (quantizer self) = Inr ident" and
    cfg: "cfg = base_config ++ [''quantizer'' \<mapsto> ident]"
    by (auto simp: get_config_def split: sum.splits)
  have rest: "cfg(''quantizer'' := None) = base_config"
    using assms(3) by (auto simp: cfg fun_eq_iff map_add_def)
  have nth: "(H @ [cfg]) ! length H = cfg" by simp
  have ent: "((H @ [cfg]) ! length H) ''quantizer'' = Some ident"
    unfolding nth by (simp add: cfg)
  have len: "length H < length (H @ [cfg])" by simp
  have fc: "fst (from_config F (H @ [cfg]) (length H) h) =
            (case deserialize_keras_object F ident h of
               Inl e \<Rightarrow> Inl e
             | Inr (q, h1) \<Rightarrow> QuantizeLayer_init F q base_config h1)"
    unfolding from_config_with_entry [OF len ent] nth rest by simp
  have "\<exists>h1. deserialize_keras_object F ident h = Inr (quantizer self', h1) \<and>
             Layer_init F base_config h1 = Inr (base self', h')"
    if "fst (from_config F (H @ [cfg]) (length H) h) = Inr (self', h')" for self' h'
    using that unfolding fc
    by (auto split: sum.splits dest: init_success)
  with ser fc show ?thesis by blast
qed

theorem config_roundtrip_witness:
  "get_config demo demo_built_layer
     = Inr [''name'' \<mapsto> ''q'', ''quantizer'' \<mapsto> ''LastValueQuantizer''] \<and>
   Layer_get_config demo (base demo_built_layer) = Inr [''name'' \<mapsto> ''q''] \<and>
   [''name'' \<mapsto> ''q''] ''quantizer'' = (None :: string option) \<and>
   fst (from_config demo [[''name'' \<mapsto> ''q'', ''quantizer'' \<mapsto> ''LastValueQuantizer'']] 0 [])
     = Inr (demo_layer, [])"
proof -
  have g: "get_config demo demo_built_layer
     = Inr [''name'' \<mapsto> ''q'', ''quantizer'' \<mapsto> ''LastValueQuantizer'']"
    by (simp add: get_config_def demo_def demo_serialize_def demo_built_layer_def demo_layer_def)
  have b: "Layer_get_config demo (base demo_built_layer) = Inr [''name'' \<mapsto> ''q'']"
    by (simp add: demo_def demo_built_layer_def demo_layer_def)
  have k: "[''name'' \<mapsto> ''q''] ''quantizer'' = (None :: string option)"
    by simp
  have s: "serialize_keras_object demo (quantizer demo_built_layer) = Inr ''LastValueQuantizer''"
    by (simp add: demo_def demo_serialize_def demo_built_layer_attrs)
  have d: "deserialize_keras_object demo ''LastValueQuantizer'' []
             = Inr (PyObj ''LastValueQuantizer'', [])"
    by (simp add: demo_def demo_deserialize_def)
  have i: "QuantizeLayer_init demo (PyObj ''LastValueQuantizer'') [''name'' \<mapsto> ''q''] []
             = Inr (demo_layer, [])"
    by (simp add: QuantizeLayer_init_def demo_def demo_is_quantizer_def demo_layer_def)
  from config_roundtrip [OF g b k, of "[]" "[]"] s
  have "fst (from_config demo [[''name'' \<mapsto> ''q'', ''quantizer'' \<mapsto> ''LastValueQuantizer'']] 0 [])
     = Inr (demo_layer, [])"
    by (auto simp: d i)
  with g b k show ?thesis by blast
qed

end
